theory Spec2Isabelle
  imports Complex_Main "HOL-Library.Char_ord" "HOL-Library.List_Lexorder" "HOL-Library.Log_Nat"
begin

section \<open>The ledger server (\<^verbatim>\<open>src/server.ts\<close>)\<close>

text \<open>
  The server keeps three SQLite tables (users, targets, transactions) and answers
  nine HTTP routes. The tables are modelled as lists of rows in insertion order,
  each route handler as a function from the database (and its request parameters)
  to a response and the database afterwards.

  Conventions of the model:
  \<^item> a column declared \<^verbatim>\<open>NOT NULL\<close> has its plain type, a nullable column an
    \<open>option\<close> (\<open>None\<close> is SQL NULL);
  \<^item> a \<^verbatim>\<open>REAL\<close> amount is the real number that the stored double is; the
    aggregate \<^verbatim>\<open>SUM\<close> and the subtraction of the stats handler round as double
    arithmetic does, while the one addition \<^verbatim>\<open>saved_amount + ?\<close> is written as
    the exact sum;
  \<^item> \<^verbatim>\<open>TEXT\<close> columns are strings compared bytewise (SQLite's BINARY collation), row
    ids are integers; a \<^verbatim>\<open>DATE\<close> column has NUMERIC affinity and holds a number or a
    text;
  \<^item> a route or query parameter (\<^verbatim>\<open>:id\<close>, \<^verbatim>\<open>userId\<close>) is the integer its text
    denotes; a text that denotes none selects no row, as an id that no row has;
  \<^item> the three tables have columns of the same name, so every field carries the
    prefix of its table: \<open>usr_\<close>, \<open>tgt_\<close>, \<open>txn_\<close>;
  \<^item> a field of a request body is \<open>Undefined\<close> when the JSON object lacks it,
    \<open>Null\<close> when it is JSON null, and \<open>Val v\<close> otherwise, \<open>v\<close> being the value
    the column stores for it;
  \<^item> \<^verbatim>\<open>CURRENT_TIMESTAMP\<close> (a text \<^verbatim>\<open>YYYY-MM-DD HH:MM:SS\<close>) and \<^verbatim>\<open>new Date()\<close> are
    read from the environment and are parameters of the handlers that use them.
\<close>

subsection \<open>Values crossing the JavaScript/SQL boundary\<close>

datatype 'a js = Undefined | Null | Val 'a

text \<open>The driver binds both \<^verbatim>\<open>undefined\<close> and \<^verbatim>\<open>null\<close> as SQL NULL.\<close>

fun bind_param :: "'a js \<Rightarrow> 'a option" where
  "bind_param Undefined = None"
| "bind_param Null = None"
| "bind_param (Val v) = Some v"

text \<open>JavaScript truthiness of a numeric field, as in \<^verbatim>\<open>type === 'income' && targetId\<close>.\<close>

fun truthy :: "int js \<Rightarrow> bool" where
  "truthy Undefined = False"
| "truthy Null = False"
| "truthy (Val n) = (n \<noteq> 0)"

text \<open>SQL addition: NULL if either operand is NULL (the sum itself is the exact one).\<close>

fun sql_add :: "real option \<Rightarrow> real option \<Rightarrow> real option" where
  "sql_add (Some a) (Some b) = Some (a + b)"
| "sql_add _ _ = None"

subsection \<open>Double arithmetic\<close>

text \<open>
  A finite double is a real number; an operation on doubles gives the double
  nearest to the exact result, a tie going to the even significand (53 bits, the
  exponent not below -1022, so that small results round on the subnormal grid).
  \<open>expo x\<close> is the exponent \<open>e\<close> with \<open>2 ^ e \<le> \<bar>x\<bar> < 2 ^ (e + 1)\<close>. Results beyond the
  largest finite double, where the machine gives an infinity, are outside this
  model: \<open>fl\<close> rounds them as if the exponent had no upper limit.
\<close>

definition pow2 :: "int \<Rightarrow> real" where
  "pow2 k = (if 0 \<le> k then 2 ^ nat k else 1 / 2 ^ nat (- k))"

definition expo :: "real \<Rightarrow> int" where
  "expo x =
     (if 1 \<le> \<bar>x\<bar> then bitlen \<lfloor>\<bar>x\<bar>\<rfloor> - 1 else - bitlen (\<lceil>1 / \<bar>x\<bar>\<rceil> - 1))"

definition ulp :: "real \<Rightarrow> real" where
  "ulp x = pow2 (max (expo x) (- 1022) - 52)"

definition round_even :: "real \<Rightarrow> int" where
  "round_even q =
     (let n = \<lfloor>q\<rfloor>; r = q - of_int n
      in if r < 1 / 2 then n else if 1 / 2 < r then n + 1 else if even n then n else n + 1)"

definition fl :: "real \<Rightarrow> real" where
  "fl x = (if x = 0 then 0 else of_int (round_even (x / ulp x)) * ulp x)"

text \<open>
  \<^verbatim>\<open>SUM(amount)\<close> over the selected rows, in the order of the table: NULL when no
  row is selected; otherwise SQLite (3.43 and later) adds the doubles by
  Kahan-Babuska-Neumaier summation, a running sum \<^verbatim>\<open>rSum\<close> with a running error term
  \<^verbatim>\<open>rErr\<close>, and returns \<^verbatim>\<open>rSum + rErr\<close>.
\<close>

record SumCtx =
  rSum :: real
  rErr :: real

definition kahanBabuskaNeumaierStep :: "SumCtx \<Rightarrow> real \<Rightarrow> SumCtx" where
  "kahanBabuskaNeumaierStep p r =
     (let s = rSum p; t = fl (s + r)
      in if \<bar>s\<bar> > \<bar>r\<bar>
         then \<lparr>rSum = t, rErr = fl (rErr p + fl (fl (s - t) + r))\<rparr>
         else \<lparr>rSum = t, rErr = fl (rErr p + fl (fl (r - t) + s))\<rparr>)"

definition sql_sum :: "real list \<Rightarrow> real option" where
  "sql_sum xs =
     (if xs = [] then None
      else let p = fold (\<lambda>r p. kahanBabuskaNeumaierStep p r) xs \<lparr>rSum = 0, rErr = 0\<rparr>
           in Some (fl (rSum p + rErr p)))"

text \<open>\<^verbatim>\<open>total || 0\<close>: the right operand when the left one is null or 0.\<close>

fun or_zero :: "real option \<Rightarrow> real" where
  "or_zero None = 0"
| "or_zero (Some x) = (if x = 0 then 0 else x)"

subsection \<open>NUMERIC affinity\<close>

text \<open>
  What a column of NUMERIC affinity (\<^verbatim>\<open>DATE\<close>, \<^verbatim>\<open>DATETIME\<close>) holds for a text that
  is bound to it: a number when the text is a well-formed integer or real literal,
  the text itself otherwise. In comparisons and in \<^verbatim>\<open>ORDER BY\<close> every number is
  below every text, numbers compare by value and texts bytewise.
\<close>

datatype sqlvalue = Num real | Txt string

fun sql_le :: "sqlvalue \<Rightarrow> sqlvalue \<Rightarrow> bool" where
  "sql_le (Num x) (Num y) = (x \<le> y)"
| "sql_le (Num x) (Txt t) = True"
| "sql_le (Txt s) (Num y) = False"
| "sql_le (Txt s) (Txt t) = (s \<le> t)"

definition sqlite3Isspace :: "char \<Rightarrow> bool" where
  "sqlite3Isspace c \<longleftrightarrow> c \<in> {CHR 0x20, CHR 0x09, CHR 0x0A, CHR 0x0B, CHR 0x0C, CHR 0x0D}"

definition sqlite3Isdigit :: "char \<Rightarrow> bool" where
  "sqlite3Isdigit c \<longleftrightarrow> CHR ''0'' \<le> c \<and> c \<le> CHR ''9''"

definition digits_value :: "string \<Rightarrow> nat" where
  "digits_value ds = foldl (\<lambda>n c. 10 * n + (of_char c - 48)) 0 ds"

definition pow10 :: "int \<Rightarrow> real" where
  "pow10 k = (if 0 \<le> k then 10 ^ nat k else 1 / 10 ^ nat (- k))"

text \<open>An optional sign at the head of a text: the sign and the rest.\<close>

fun take_sign :: "string \<Rightarrow> int \<times> string" where
  "take_sign [] = (1, [])"
| "take_sign (c # r) =
     (if c = CHR ''-'' then (- 1, r) else if c = CHR ''+'' then (1, r) else (1, c # r))"

text \<open>
  The number that a text denotes, if it is a well-formed literal: blanks, a sign,
  digits, a point and digits, an exponent (\<^verbatim>\<open>e\<close> or \<^verbatim>\<open>E\<close>, a sign, at
  least one digit), blanks, and nothing else; the digits before and after the point
  are not both missing. The result says whether the literal is an integer literal
  (no point, no exponent) and gives its exact value.
\<close>

definition sqlite3AtoF :: "string \<Rightarrow> (bool \<times> real) option" where
  "sqlite3AtoF z =
     (let (sign, z2) = take_sign (dropWhile sqlite3Isspace z);
          ip = takeWhile sqlite3Isdigit z2;
          z3 = dropWhile sqlite3Isdigit z2;
          dot = (z3 \<noteq> [] \<and> hd z3 = CHR ''.'');
          fp = (if dot then takeWhile sqlite3Isdigit (tl z3) else []);
          z4 = (if dot then dropWhile sqlite3Isdigit (tl z3) else z3);
          ex = (z4 \<noteq> [] \<and> (hd z4 = CHR ''e'' \<or> hd z4 = CHR ''E''));
          (esign, z5) = (if ex then take_sign (tl z4) else (1, z4));
          ed = (if ex then takeWhile sqlite3Isdigit z5 else []);
          z6 = (if ex then dropWhile sqlite3Isdigit z5 else z5)
      in if dropWhile sqlite3Isspace z6 = [] \<and> (ip \<noteq> [] \<or> fp \<noteq> []) \<and>
            (if ex then ed \<noteq> [] else True)
         then Some (\<not> dot \<and> \<not> ex,
                    of_int sign * of_nat (digits_value (ip @ fp)) *
                    pow10 (esign * int (digits_value ed) - int (length fp)))
         else None)"

text \<open>
  An integer literal that fits 64 bits is stored as that integer, any other literal
  as a double. The model takes the double nearest to the literal's value; SQLite's
  own conversion keeps about fifteen significant digits and can differ from it in
  the last place for a longer literal. Only the order among numeric dates in
  \<^verbatim>\<open>ORDER BY\<close> depends on that value.
\<close>

definition numeric_affinity :: "string \<Rightarrow> sqlvalue" where
  "numeric_affinity z =
     (case sqlite3AtoF z of
        None \<Rightarrow> Txt z
      | Some (is_int, v) \<Rightarrow>
          if is_int \<and> - (2 ^ 63) \<le> v \<and> v < 2 ^ 63 then Num v else Num (fl v))"

subsection \<open>The schema\<close>

record user =
  usr_id :: int
  usr_name :: string
  usr_email :: string
  usr_password :: string
  usr_avatar_url :: "string option"
  usr_created_at :: string

record target =
  tgt_id :: int
  tgt_user_id :: int
  tgt_name :: string
  tgt_amount :: real
  tgt_saved_amount :: "real option"
  tgt_deadline :: "sqlvalue option"
  tgt_description :: "string option"
  tgt_status :: "string option"
  tgt_created_at :: string

record transaction =
  txn_id :: int
  txn_user_id :: int
  txn_type :: string
  txn_category :: string
  txn_amount :: real
  txn_description :: "string option"
  txn_date :: sqlvalue
  txn_target_id :: "int option"
  txn_created_at :: string

text \<open>
  The database: the three tables, the \<^verbatim>\<open>AUTOINCREMENT\<close> counter of each (the
  largest row id the table has ever held), and whether the connection enforces the
  declared foreign keys. That last setting is the driver's, not the repository's,
  so it is kept as a parameter of the state and every result holds for both values.
\<close>

record db =
  users :: "user list"
  targets :: "target list"
  transactions :: "transaction list"
  users_seq :: int
  targets_seq :: int
  transactions_seq :: int
  foreign_keys :: bool

datatype sqlite_error =
    CONSTRAINT_NOTNULL
  | CONSTRAINT_CHECK
  | CONSTRAINT_UNIQUE
  | CONSTRAINT_FOREIGNKEY

record stats =
  balance :: real
  monthlyIncome :: real
  monthlyExpense :: real
  totalIncome :: real
  totalExpense :: real

text \<open>
  What a handler answers. \<open>Uncaught e\<close> is an exception that leaves the handler:
  the framework answers it with status 500, and no later statement of the handler
  runs.
\<close>

datatype response =
    Json_id int
  | Json_registered int "string js" "string js"
  | Json_user user
  | Json_success
  | Json_transactions "transaction list"
  | Json_targets "target list"
  | Json_stats stats
  | Status nat string
  | Uncaught sqlite_error

text \<open>The row id an \<^verbatim>\<open>AUTOINCREMENT\<close> table gives its next row.\<close>

definition next_rowid :: "int \<Rightarrow> int list \<Rightarrow> int" where
  "next_rowid seq ids = max seq (fold max ids 0) + 1"

subsection \<open>The INSERT statements with their constraints\<close>

definition insert_user ::
  "db \<Rightarrow> string \<Rightarrow> string option \<Rightarrow> string option \<Rightarrow> string option
     \<Rightarrow> sqlite_error + (int \<times> db)" where
  "insert_user d ts name email password =
     (case (name, email, password) of
        (Some n, Some e, Some p) \<Rightarrow>
          if e \<in> set (map usr_email (users d)) then Inl CONSTRAINT_UNIQUE
          else
            let i = next_rowid (users_seq d) (map usr_id (users d)) in
            Inr (i, d\<lparr>users := users d @
                         [\<lparr>usr_id = i, usr_name = n, usr_email = e, usr_password = p,
                           usr_avatar_url = None, usr_created_at = ts\<rparr>],
                       users_seq := i\<rparr>)
      | _ \<Rightarrow> Inl CONSTRAINT_NOTNULL)"

definition insert_target ::
  "db \<Rightarrow> string \<Rightarrow> int option \<Rightarrow> string option \<Rightarrow> real option \<Rightarrow> string option
     \<Rightarrow> string option \<Rightarrow> sqlite_error + (int \<times> db)" where
  "insert_target d ts user_id name amount deadline description =
     (case (user_id, name, amount) of
        (Some u, Some n, Some a) \<Rightarrow>
          if foreign_keys d \<and> u \<notin> set (map usr_id (users d))
          then Inl CONSTRAINT_FOREIGNKEY
          else
            let i = next_rowid (targets_seq d) (map tgt_id (targets d)) in
            Inr (i, d\<lparr>targets := targets d @
                         [\<lparr>tgt_id = i, tgt_user_id = u, tgt_name = n, tgt_amount = a,
                           tgt_saved_amount = Some 0,
                           tgt_deadline = map_option numeric_affinity deadline,
                           tgt_description = description, tgt_status = Some ''active'',
                           tgt_created_at = ts\<rparr>],
                       targets_seq := i\<rparr>)
      | _ \<Rightarrow> Inl CONSTRAINT_NOTNULL)"

definition insert_transaction ::
  "db \<Rightarrow> string \<Rightarrow> int option \<Rightarrow> string option \<Rightarrow> string option \<Rightarrow> real option
     \<Rightarrow> string option \<Rightarrow> string option \<Rightarrow> int option \<Rightarrow> sqlite_error + (int \<times> db)" where
  "insert_transaction d ts user_id type category amount description date target_id =
     (case (user_id, type, category, amount, date) of
        (Some u, Some ty, Some c, Some a, Some dt) \<Rightarrow>
          if ty \<notin> {''income'', ''expense''} then Inl CONSTRAINT_CHECK
          else if foreign_keys d \<and>
                  (u \<notin> set (map usr_id (users d)) \<or>
                   (case target_id of None \<Rightarrow> False
                    | Some g \<Rightarrow> g \<notin> set (map tgt_id (targets d))))
          then Inl CONSTRAINT_FOREIGNKEY
          else
            let i = next_rowid (transactions_seq d) (map txn_id (transactions d)) in
            Inr (i, d\<lparr>transactions := transactions d @
                         [\<lparr>txn_id = i, txn_user_id = u, txn_type = ty, txn_category = c,
                           txn_amount = a, txn_description = description,
                           txn_date = numeric_affinity dt,
                           txn_target_id = target_id, txn_created_at = ts\<rparr>],
                       transactions_seq := i\<rparr>)
      | _ \<Rightarrow> Inl CONSTRAINT_NOTNULL)"

subsection \<open>Auth API\<close>

text \<open>
  \<^verbatim>\<open>POST /api/auth/register\<close>: the handler catches whatever the INSERT throws
  and answers status 400 with the one message it has.
\<close>

definition register :: "db \<Rightarrow> string \<Rightarrow> string js \<Rightarrow> string js \<Rightarrow> string js \<Rightarrow> response \<times> db" where
  "register d ts name email password =
     (case insert_user d ts (bind_param name) (bind_param email) (bind_param password) of
        Inr (rowid, d') \<Rightarrow> (Json_registered rowid name email, d')
      | Inl e \<Rightarrow> (Status 400 ''Email already exists'', d))"

text \<open>\<^verbatim>\<open>POST /api/auth/login\<close>: the first row with that email and password.\<close>

definition login :: "db \<Rightarrow> string js \<Rightarrow> string js \<Rightarrow> response" where
  "login d email password =
     (case filter (\<lambda>u. Some (usr_email u) = bind_param email \<and>
                        Some (usr_password u) = bind_param password) (users d) of
        u # _ \<Rightarrow> Json_user u
      | [] \<Rightarrow> Status 401 ''Invalid credentials'')"

subsection \<open>Transactions API\<close>

text \<open>
  \<^verbatim>\<open>ORDER BY key DESC\<close>: rows with the larger key first; rows with equal keys keep
  the order of the table.
\<close>

fun insert_desc :: "('a \<Rightarrow> sqlvalue) \<Rightarrow> 'a \<Rightarrow> 'a list \<Rightarrow> 'a list" where
  "insert_desc k x [] = [x]"
| "insert_desc k x (y # ys) =
     (if sql_le (k y) (k x) then x # y # ys else y # insert_desc k x ys)"

definition order_by_desc :: "('a \<Rightarrow> sqlvalue) \<Rightarrow> 'a list \<Rightarrow> 'a list" where
  "order_by_desc k xs = foldr (insert_desc k) xs []"

text \<open>\<^verbatim>\<open>GET /api/transactions?userId=\<close>\<close>

definition list_transactions :: "db \<Rightarrow> int \<Rightarrow> response" where
  "list_transactions d userId =
     Json_transactions
       (order_by_desc txn_date (filter (\<lambda>t. txn_user_id t = userId) (transactions d)))"

text \<open>\<^verbatim>\<open>UPDATE targets SET saved_amount = saved_amount + ? WHERE id = ?\<close>\<close>

definition add_saved_amount :: "db \<Rightarrow> real option \<Rightarrow> int option \<Rightarrow> db" where
  "add_saved_amount d amount target_id =
     d\<lparr>targets :=
         map (\<lambda>g. if Some (tgt_id g) = target_id
                  then g\<lparr>tgt_saved_amount := sql_add (tgt_saved_amount g) amount\<rparr>
                  else g)
             (targets d)\<rparr>"

text \<open>
  \<^verbatim>\<open>POST /api/transactions\<close>: the INSERT, then the update of the linked target.
  The handler has no try/catch: a failing INSERT ends it.
\<close>

definition create_transaction ::
  "db \<Rightarrow> string \<Rightarrow> int js \<Rightarrow> string js \<Rightarrow> string js \<Rightarrow> real js \<Rightarrow> string js \<Rightarrow> string js
     \<Rightarrow> int js \<Rightarrow> response \<times> db" where
  "create_transaction d ts userId type category amount description date targetId =
     (case insert_transaction d ts (bind_param userId) (bind_param type)
             (bind_param category) (bind_param amount) (bind_param description)
             (bind_param date) (bind_param targetId) of
        Inl e \<Rightarrow> (Uncaught e, d)
      | Inr (rowid, d1) \<Rightarrow>
          let d2 = (if type = Val ''income'' \<and> truthy targetId
                    then add_saved_amount d1 (bind_param amount) (bind_param targetId)
                    else d1)
          in (Json_id rowid, d2))"

text \<open>
  \<^verbatim>\<open>DELETE /api/transactions/:id\<close>: one DELETE statement and the same answer
  whatever it removed.
\<close>

definition delete_transaction :: "db \<Rightarrow> int \<Rightarrow> response \<times> db" where
  "delete_transaction d id' =
     (Json_success, d\<lparr>transactions := filter (\<lambda>t. txn_id t \<noteq> id') (transactions d)\<rparr>)"

subsection \<open>Targets API\<close>

text \<open>
  \<^verbatim>\<open>GET /api/targets?userId=\<close>. The sort key \<^verbatim>\<open>created_at\<close> is a \<^verbatim>\<open>DATETIME\<close>
  column, of NUMERIC affinity as well.
\<close>

definition list_targets :: "db \<Rightarrow> int \<Rightarrow> response" where
  "list_targets d userId =
     Json_targets
       (order_by_desc (\<lambda>g. numeric_affinity (tgt_created_at g))
          (filter (\<lambda>g. tgt_user_id g = userId) (targets d)))"

text \<open>\<^verbatim>\<open>POST /api/targets\<close>\<close>

definition create_target ::
  "db \<Rightarrow> string \<Rightarrow> int js \<Rightarrow> string js \<Rightarrow> real js \<Rightarrow> string js \<Rightarrow> string js \<Rightarrow> response \<times> db" where
  "create_target d ts userId name amount deadline description =
     (case insert_target d ts (bind_param userId) (bind_param name) (bind_param amount)
             (bind_param deadline) (bind_param description) of
        Inl e \<Rightarrow> (Uncaught e, d)
      | Inr (rowid, d') \<Rightarrow> (Json_id rowid, d'))"

text \<open>\<^verbatim>\<open>UPDATE targets SET saved_amount = ? WHERE id = ?\<close> and the same for status.\<close>

definition set_saved_amount :: "db \<Rightarrow> real option \<Rightarrow> int \<Rightarrow> db" where
  "set_saved_amount d v id' =
     d\<lparr>targets := map (\<lambda>g. if tgt_id g = id' then g\<lparr>tgt_saved_amount := v\<rparr> else g) (targets d)\<rparr>"

definition set_status :: "db \<Rightarrow> string option \<Rightarrow> int \<Rightarrow> db" where
  "set_status d v id' =
     d\<lparr>targets := map (\<lambda>g. if tgt_id g = id' then g\<lparr>tgt_status := v\<rparr> else g) (targets d)\<rparr>"

text \<open>\<^verbatim>\<open>PATCH /api/targets/:id\<close>\<close>

definition update_target :: "db \<Rightarrow> int \<Rightarrow> real js \<Rightarrow> string js \<Rightarrow> response \<times> db" where
  "update_target d id' saved_amount status =
     (let d1 = (if saved_amount \<noteq> Undefined
                then set_saved_amount d (bind_param saved_amount) id' else d);
          d2 = (if status \<noteq> Undefined
                then set_status d1 (bind_param status) id' else d1)
      in (Json_success, d2))"

subsection \<open>Dashboard stats API\<close>

text \<open>
  The server's clock as the handler reads it: \<^verbatim>\<open>getFullYear()\<close>, \<^verbatim>\<open>getMonth()\<close>
  (0 for January) and, for naming the day of the query, \<^verbatim>\<open>getDate()\<close>.
\<close>

record clock =
  getFullYear :: nat
  getMonth :: nat
  getDate :: nat

definition digit_char :: "nat \<Rightarrow> char" where
  "digit_char n = ''0123456789'' ! n"

text \<open>\<^verbatim>\<open>String(n)\<close> for a natural number: its decimal digits.\<close>

fun String_nat :: "nat \<Rightarrow> string" where
  "String_nat n =
     (if n < 10 then [digit_char n] else String_nat (n div 10) @ [digit_char (n mod 10)])"

declare String_nat.simps [simp del]

definition padStart :: "nat \<Rightarrow> char \<Rightarrow> string \<Rightarrow> string" where
  "padStart n c s = replicate (n - length s) c @ s"

definition monthStart :: "clock \<Rightarrow> string" where
  "monthStart now =
     String_nat (getFullYear now) @ ''-'' @
     padStart 2 (CHR ''0'') (String_nat (getMonth now + 1)) @ ''-01''"

text \<open>The four aggregate queries of the handler.\<close>

definition total_of :: "db \<Rightarrow> int \<Rightarrow> string \<Rightarrow> real option" where
  "total_of d userId ty =
     sql_sum (map txn_amount
       (filter (\<lambda>t. txn_user_id t = userId \<and> txn_type t = ty) (transactions d)))"

text \<open>
  In \<^verbatim>\<open>date >= ?\<close> the column has NUMERIC affinity and the parameter has none, so
  the affinity is applied to the parameter before the two values are compared.
\<close>

definition monthly_of :: "db \<Rightarrow> int \<Rightarrow> string \<Rightarrow> string \<Rightarrow> real option" where
  "monthly_of d userId ty start =
     sql_sum (map txn_amount
       (filter (\<lambda>t. txn_user_id t = userId \<and> txn_type t = ty \<and>
                    sql_le (numeric_affinity start) (txn_date t))
          (transactions d)))"

text \<open>\<^verbatim>\<open>GET /api/stats?userId=\<close>\<close>

definition get_stats :: "db \<Rightarrow> clock \<Rightarrow> int \<Rightarrow> stats" where
  "get_stats d now userId =
     (let start = monthStart now;
          totalIncome = or_zero (total_of d userId ''income'');
          totalExpense = or_zero (total_of d userId ''expense'');
          monthlyIncome = or_zero (monthly_of d userId ''income'' start);
          monthlyExpense = or_zero (monthly_of d userId ''expense'' start)
      in \<lparr>balance = fl (totalIncome - totalExpense),
          monthlyIncome = monthlyIncome,
          monthlyExpense = monthlyExpense,
          totalIncome = totalIncome,
          totalExpense = totalExpense\<rparr>)"

subsection \<open>What the specification measures\<close>

text \<open>
  The sum the specification compares a target's \<^verbatim>\<open>saved_amount\<close> with: the amounts
  of the income transactions present whose \<^verbatim>\<open>target_id\<close> is that target.
\<close>

definition linked_income :: "db \<Rightarrow> int \<Rightarrow> real" where
  "linked_income d target_id =
     sum_list (map txn_amount
       (filter (\<lambda>t. txn_type t = ''income'' \<and> txn_target_id t = Some target_id)
          (transactions d)))"




subsection \<open>Example states\<close>

text \<open>
  A run of the server from the empty database, with foreign keys enforced: Ann and
  Bob register (users 1 and 2), Ann creates the target Laptop (target 1), records
  the incomes A (400000) and B (300000) towards it, and deletes A.
\<close>

definition db0 :: db where
  "db0 = \<lparr>users = [], targets = [], transactions = [], users_seq = 0, targets_seq = 0,
          transactions_seq = 0, foreign_keys = True\<rparr>"

definition ts0 :: string where
  "ts0 = ''2026-11-02 09:00:00''"

definition db_ann :: db where
  "db_ann = snd (register db0 ts0 (Val ''Ann'') (Val ''ann@example.org'') (Val ''secret''))"

definition db_bob :: db where
  "db_bob = snd (register db_ann ts0 (Val ''Bob'') (Val ''bob@example.org'') (Val ''hunter2''))"

definition db_goal :: db where
  "db_goal = snd (create_target db_bob ts0 (Val 1) (Val ''Laptop'') (Val 1000000) Null Null)"

definition db_A :: db where
  "db_A = snd (create_transaction db_goal ts0 (Val 1) (Val ''income'') (Val ''salary'')
                 (Val 400000) Null (Val ''2026-11-02'') (Val 1))"

definition db_B :: db where
  "db_B = snd (create_transaction db_A ts0 (Val 1) (Val ''income'') (Val ''bonus'')
                 (Val 300000) Null (Val ''2026-11-03'') (Val 1))"

definition db_del :: db where
  "db_del = snd (delete_transaction db_B 1)"

text \<open>
  Other continuations of the run: from the state with the target, Ann records an
  income dated in January 2027, or Bob records an income towards Ann's target; and
  after A and B, Bob creates a target and records an expense of his own. The
  server's clock reads 2 November 2026.
\<close>

definition clock0 :: clock where
  "clock0 = \<lparr>getFullYear = 2026, getMonth = 10, getDate = 2\<rparr>"



definition db_other :: db where
  "db_other =
     snd (create_transaction
            (snd (create_target db_B ts0 (Val 2) (Val ''Bike'') (Val 5000) Null Null))
            ts0 (Val 2) (Val ''expense'') (Val ''food'') (Val 90) Null (Val ''2026-11-04'') Null)"

text \<open>
  And a ledger with large amounts: from the state with the target, Ann records the
  incomes 9007199254740992 (that is 2 ^ 53) and 1, and the expense 9007199254740992.
\<close>

definition db_big :: db where
  "db_big =
     snd (create_transaction
       (snd (create_transaction
          (snd (create_transaction db_goal ts0 (Val 1) (Val ''income'') (Val ''sale'')
                  (Val 9007199254740992) Null (Val ''2026-11-02'') Null))
          ts0 (Val 1) (Val ''income'') (Val ''tip'') (Val 1) Null (Val ''2026-11-02'') Null))
       ts0 (Val 1) (Val ''expense'') (Val ''purchase'') (Val 9007199254740992) Null
       (Val ''2026-11-02'') Null)"

section \<open>Properties\<close>

subsection \<open>The example states, evaluated\<close>

lemmas affinity_eval = numeric_affinity_def sqlite3AtoF_def sqlite3Isspace_def
  sqlite3Isdigit_def digits_value_def pow10_def Let_def

lemmas double_eval = fl_def ulp_def pow2_def round_even_def expo_def compute_bitlen
  sql_sum_def kahanBabuskaNeumaierStep_def

lemma db_ann_eq:
  "db_ann =
     \<lparr>users = [\<lparr>usr_id = 1, usr_name = ''Ann'', usr_email = ''ann@example.org'',
                usr_password = ''secret'', usr_avatar_url = None, usr_created_at = ts0\<rparr>],
      targets = [], transactions = [], users_seq = 1, targets_seq = 0,
      transactions_seq = 0, foreign_keys = True\<rparr>"
  by (simp add: db_ann_def db0_def register_def insert_user_def next_rowid_def)

lemma db_goal_eq:
  "db_goal =
     \<lparr>users = [\<lparr>usr_id = 1, usr_name = ''Ann'', usr_email = ''ann@example.org'',
                usr_password = ''secret'', usr_avatar_url = None, usr_created_at = ts0\<rparr>,
              \<lparr>usr_id = 2, usr_name = ''Bob'', usr_email = ''bob@example.org'',
                usr_password = ''hunter2'', usr_avatar_url = None, usr_created_at = ts0\<rparr>],
      targets = [\<lparr>tgt_id = 1, tgt_user_id = 1, tgt_name = ''Laptop'', tgt_amount = 1000000,
                  tgt_saved_amount = Some 0, tgt_deadline = None, tgt_description = None,
                  tgt_status = Some ''active'', tgt_created_at = ts0\<rparr>],
      transactions = [], users_seq = 2, targets_seq = 1, transactions_seq = 0,
      foreign_keys = True\<rparr>"
  by (simp add: db_goal_def db_bob_def db_ann_eq register_def insert_user_def next_rowid_def
        create_target_def insert_target_def)

lemma db_A_eq:
  "db_A = db_goal
     \<lparr>targets := [\<lparr>tgt_id = 1, tgt_user_id = 1, tgt_name = ''Laptop'', tgt_amount = 1000000,
                   tgt_saved_amount = Some 400000, tgt_deadline = None,
                   tgt_description = None, tgt_status = Some ''active'',
                   tgt_created_at = ts0\<rparr>],
      transactions := [\<lparr>txn_id = 1, txn_user_id = 1, txn_type = ''income'',
                        txn_category = ''salary'', txn_amount = 400000,
                        txn_description = None, txn_date = Txt ''2026-11-02'',
                        txn_target_id = Some 1, txn_created_at = ts0\<rparr>],
      transactions_seq := 1\<rparr>"
  by (simp add: db_A_def db_goal_eq create_transaction_def insert_transaction_def
        add_saved_amount_def next_rowid_def affinity_eval)

lemma db_B_eq:
  "db_B = db_goal
     \<lparr>targets := [\<lparr>tgt_id = 1, tgt_user_id = 1, tgt_name = ''Laptop'', tgt_amount = 1000000,
                   tgt_saved_amount = Some 700000, tgt_deadline = None,
                   tgt_description = None, tgt_status = Some ''active'',
                   tgt_created_at = ts0\<rparr>],
      transactions := [\<lparr>txn_id = 1, txn_user_id = 1, txn_type = ''income'',
                        txn_category = ''salary'', txn_amount = 400000,
                        txn_description = None, txn_date = Txt ''2026-11-02'',
                        txn_target_id = Some 1, txn_created_at = ts0\<rparr>,
                       \<lparr>txn_id = 2, txn_user_id = 1, txn_type = ''income'',
                        txn_category = ''bonus'', txn_amount = 300000,
                        txn_description = None, txn_date = Txt ''2026-11-03'',
                        txn_target_id = Some 1, txn_created_at = ts0\<rparr>],
      transactions_seq := 2\<rparr>"
  by (simp add: db_B_def db_A_eq db_goal_eq create_transaction_def insert_transaction_def
        add_saved_amount_def next_rowid_def affinity_eval)





lemma db_other_eq:
  "db_other = db_B
     \<lparr>targets := targets db_B @
        [\<lparr>tgt_id = 2, tgt_user_id = 2, tgt_name = ''Bike'', tgt_amount = 5000,
          tgt_saved_amount = Some 0, tgt_deadline = None, tgt_description = None,
          tgt_status = Some ''active'', tgt_created_at = ts0\<rparr>],
      transactions := transactions db_B @
        [\<lparr>txn_id = 3, txn_user_id = 2, txn_type = ''expense'', txn_category = ''food'',
          txn_amount = 90, txn_description = None, txn_date = Txt ''2026-11-04'',
          txn_target_id = None, txn_created_at = ts0\<rparr>],
      targets_seq := 2, transactions_seq := 3\<rparr>"
  by (simp add: db_other_def db_B_eq db_goal_eq create_transaction_def insert_transaction_def
        create_target_def insert_target_def next_rowid_def affinity_eval)

lemma db_big_eq:
  "db_big = db_goal
     \<lparr>transactions :=
        [\<lparr>txn_id = 1, txn_user_id = 1, txn_type = ''income'', txn_category = ''sale'',
          txn_amount = 9007199254740992, txn_description = None,
          txn_date = Txt ''2026-11-02'', txn_target_id = None, txn_created_at = ts0\<rparr>,
         \<lparr>txn_id = 2, txn_user_id = 1, txn_type = ''income'', txn_category = ''tip'',
          txn_amount = 1, txn_description = None,
          txn_date = Txt ''2026-11-02'', txn_target_id = None, txn_created_at = ts0\<rparr>,
         \<lparr>txn_id = 3, txn_user_id = 1, txn_type = ''expense'', txn_category = ''purchase'',
          txn_amount = 9007199254740992, txn_description = None,
          txn_date = Txt ''2026-11-02'', txn_target_id = None, txn_created_at = ts0\<rparr>],
      transactions_seq := 3\<rparr>"
  by (simp add: db_big_def db_goal_eq create_transaction_def insert_transaction_def
        next_rowid_def affinity_eval)

subsection \<open>The INSERT into transactions, case by case\<close>

lemma insert_transaction_complete:
  "insert_transaction d ts (Some u) (Some ty) (Some c) (Some a) description (Some dt) target_id =
     (if ty \<notin> {''income'', ''expense''} then Inl CONSTRAINT_CHECK
      else if foreign_keys d \<and>
              (u \<notin> set (map usr_id (users d)) \<or>
               (case target_id of None \<Rightarrow> False
                | Some g \<Rightarrow> g \<notin> set (map tgt_id (targets d))))
      then Inl CONSTRAINT_FOREIGNKEY
      else
        let i = next_rowid (transactions_seq d) (map txn_id (transactions d)) in
        Inr (i, d\<lparr>transactions := transactions d @
                     [\<lparr>txn_id = i, txn_user_id = u, txn_type = ty, txn_category = c,
                       txn_amount = a, txn_description = description,
                       txn_date = numeric_affinity dt,
                       txn_target_id = target_id, txn_created_at = ts\<rparr>],
                   transactions_seq := i\<rparr>))"
  by (simp add: insert_transaction_def)

lemma insert_transaction_missing:
  "user_id = None \<or> type = None \<or> category = None \<or> amount = None \<or> date = None \<Longrightarrow>
   insert_transaction d ts user_id type category amount description date target_id
     = Inl CONSTRAINT_NOTNULL"
  by (cases user_id; cases type; cases category; cases amount; cases date)
     (simp_all add: insert_transaction_def)

lemma bind_param_eq_Some: "bind_param x = Some v \<longleftrightarrow> x = Val v"
  by (cases x) auto



subsection \<open>Savings targets and their linked income\<close>

text \<open>
  C1. The specification asks that, after every create_transaction and
  delete_transaction, a target's \<^verbatim>\<open>saved_amount\<close> be the sum of the amounts of the
  income transactions present that are linked to it. The create handler keeps it
  so; the delete handler removes the row and leaves the target as it was. In the
  example run the target holds 700000 after A and B, which is their sum; after A is
  deleted it still holds 700000 while the linked income left is B's 300000.
\<close>

theorem saved_amount_drifts_on_delete:
  "map tgt_saved_amount (targets db_B) = [Some 700000] \<and> linked_income db_B 1 = 700000 \<and>
   map tgt_saved_amount (targets db_del) = [Some 700000] \<and> linked_income db_del 1 = 300000"
  by (simp add: db_del_def db_B_eq db_goal_eq delete_transaction_def linked_income_def)

text \<open>
  C2. The specification asks that creating an income transaction linked to a target
  and then deleting it restore the target's \<^verbatim>\<open>saved_amount\<close>. In the example run the
  target starts at 0, creating A (400000) answers id 1 and raises it to 400000, and
  after deleting transaction 1 it is still 400000.
\<close>

theorem create_then_delete_keeps_increment:
  "map tgt_saved_amount (targets db_goal) = [Some 0] \<and>
   create_transaction db_goal ts0 (Val 1) (Val ''income'') (Val ''salary'')
     (Val 400000) Null (Val ''2026-11-02'') (Val 1) = (Json_id 1, db_A) \<and>
   map tgt_saved_amount (targets (snd (delete_transaction db_A 1))) = [Some 400000]"
  by (simp add: db_A_eq db_goal_eq delete_transaction_def create_transaction_def
        insert_transaction_def add_saved_amount_def next_rowid_def affinity_eval)

subsection \<open>Creating a transaction\<close>




text \<open>
  C5, as the specification states it, fails: nothing checks the amount. An expense
  of -5 is stored and answered with its new id.
\<close>

theorem create_transaction_accepts_nonpositive_amount:
  "create_transaction db_goal ts0 (Val 1) (Val ''expense'') (Val ''food'') (Val (- 5)) Null
     (Val ''2026-11-02'') Null =
   (Json_id 1, db_goal\<lparr>transactions :=
      [\<lparr>txn_id = 1, txn_user_id = 1, txn_type = ''expense'', txn_category = ''food'',
        txn_amount = - 5, txn_description = None, txn_date = Txt ''2026-11-02'',
        txn_target_id = None, txn_created_at = ts0\<rparr>], transactions_seq := 1\<rparr>)"
  by (simp add: db_goal_eq create_transaction_def insert_transaction_def next_rowid_def
        affinity_eval)

text \<open>
  C5, amended. The handler validates nothing itself and has no ValidationError; the
  table's constraints are what rejects a request. When userId, type, category,
  amount or date is missing (undefined or null), or type is neither income nor
  expense, the INSERT throws a NOT NULL or CHECK constraint error, the exception
  leaves the handler, and the store is unchanged. When those five fields are
  present and type is income or expense (and, where foreign keys are enforced,
  userId and a given targetId name existing rows), the request is accepted whatever
  the amount, zero and negative amounts included: the answer is the new id and the
  transaction is appended with that amount.
\<close>

theorem create_transaction_constraints_only:
  "(bind_param userId = None \<or> bind_param type = None \<or> bind_param category = None \<or>
    bind_param amount = None \<or> bind_param date = None \<or>
    type \<notin> {Val ''income'', Val ''expense''} \<longrightarrow>
      (\<exists>e. e \<in> {CONSTRAINT_NOTNULL, CONSTRAINT_CHECK} \<and>
         create_transaction d ts userId type category amount description date targetId
           = (Uncaught e, d))) \<and>
   (userId = Val u \<and> type = Val ty \<and> ty \<in> {''income'', ''expense''} \<and> category = Val c \<and>
    amount = Val a \<and> date = Val dt \<and>
    (foreign_keys d \<longrightarrow>
       u \<in> set (map usr_id (users d)) \<and>
       (\<forall>g. targetId = Val g \<longrightarrow> g \<in> set (map tgt_id (targets d)))) \<longrightarrow>
      (\<exists>d'. create_transaction d ts userId type category amount description date targetId
              = (Json_id (next_rowid (transactions_seq d) (map txn_id (transactions d))), d') \<and>
            transactions d' = transactions d @
              [\<lparr>txn_id = next_rowid (transactions_seq d) (map txn_id (transactions d)),
                txn_user_id = u, txn_type = ty, txn_category = c, txn_amount = a,
                txn_description = bind_param description, txn_date = numeric_affinity dt,
                txn_target_id = bind_param targetId, txn_created_at = ts\<rparr>]))"
proof (intro conjI impI)
  assume bad: "bind_param userId = None \<or> bind_param type = None \<or> bind_param category = None \<or>
    bind_param amount = None \<or> bind_param date = None \<or>
    type \<notin> {Val ''income'', Val ''expense''}"
  show "\<exists>e. e \<in> {CONSTRAINT_NOTNULL, CONSTRAINT_CHECK} \<and>
         create_transaction d ts userId type category amount description date targetId
           = (Uncaught e, d)"
  proof (cases "bind_param userId = None \<or> bind_param type = None \<or>
                bind_param category = None \<or> bind_param amount = None \<or>
                bind_param date = None")
    case True
    from insert_transaction_missing [OF True] show ?thesis
      by (simp add: create_transaction_def)
  next
    case False
    then obtain u' ty' c' a' dt' where some:
      "bind_param userId = Some u'" "bind_param type = Some ty'"
      "bind_param category = Some c'" "bind_param amount = Some a'"
      "bind_param date = Some dt'"
      by auto
    from False bad some(2) have "ty' \<notin> {''income'', ''expense''}"
      by (auto simp: bind_param_eq_Some)
    with some show ?thesis
      by (simp add: create_transaction_def insert_transaction_complete)
  qed
next
  assume ok: "userId = Val u \<and> type = Val ty \<and> ty \<in> {''income'', ''expense''} \<and>
    category = Val c \<and> amount = Val a \<and> date = Val dt \<and>
    (foreign_keys d \<longrightarrow>
       u \<in> set (map usr_id (users d)) \<and>
       (\<forall>g. targetId = Val g \<longrightarrow> g \<in> set (map tgt_id (targets d))))"
  have fk: "\<not> (foreign_keys d \<and>
              (u \<notin> set (map usr_id (users d)) \<or>
               (case bind_param targetId of None \<Rightarrow> False
                | Some g \<Rightarrow> g \<notin> set (map tgt_id (targets d)))))"
    using ok by (cases targetId) auto
  have ins: "insert_transaction d ts (bind_param userId) (bind_param type)
             (bind_param category) (bind_param amount) (bind_param description)
             (bind_param date) (bind_param targetId) =
        Inr (next_rowid (transactions_seq d) (map txn_id (transactions d)),
             d\<lparr>transactions := transactions d @
              [\<lparr>txn_id = next_rowid (transactions_seq d) (map txn_id (transactions d)),
                txn_user_id = u, txn_type = ty, txn_category = c, txn_amount = a,
                txn_description = bind_param description, txn_date = numeric_affinity dt,
                txn_target_id = bind_param targetId, txn_created_at = ts\<rparr>],
               transactions_seq := next_rowid (transactions_seq d) (map txn_id (transactions d))\<rparr>)"
    using ok fk by (simp add: insert_transaction_complete Let_def)
  show "\<exists>d'. create_transaction d ts userId type category amount description date targetId
              = (Json_id (next_rowid (transactions_seq d) (map txn_id (transactions d))), d') \<and>
            transactions d' = transactions d @
              [\<lparr>txn_id = next_rowid (transactions_seq d) (map txn_id (transactions d)),
                txn_user_id = u, txn_type = ty, txn_category = c, txn_amount = a,
                txn_description = bind_param description, txn_date = numeric_affinity dt,
                txn_target_id = bind_param targetId, txn_created_at = ts\<rparr>]"
    by (simp add: create_transaction_def ins Let_def add_saved_amount_def)
qed

theorem create_transaction_constraints_only_witness:
  "create_transaction db_goal ts0 (Val 1) (Val ''gift'') (Val ''misc'') (Val 10) Null
       (Val ''2026-11-02'') Null = (Uncaught CONSTRAINT_CHECK, db_goal) \<and>
   create_transaction db_goal ts0 (Val 1) (Val ''income'') (Val ''misc'') Undefined Null
       (Val ''2026-11-02'') Null = (Uncaught CONSTRAINT_NOTNULL, db_goal) \<and>
   fst (create_transaction db_goal ts0 (Val 1) (Val ''income'') (Val ''misc'') (Val 0) Null
       (Val ''2026-11-02'') (Val 1)) = Json_id 1 \<and>
   map txn_amount (transactions (snd (create_transaction db_goal ts0 (Val 1) (Val ''income'')
       (Val ''misc'') (Val 0) Null (Val ''2026-11-02'') (Val 1)))) = [0] \<and>
   fst (create_transaction db_goal ts0 (Val 2) (Val ''expense'') (Val ''food'') (Val (- 5)) Null
       (Val ''2026-11-02'') Null) = Json_id 1 \<and>
   map txn_amount (transactions (snd (create_transaction db_goal ts0 (Val 2) (Val ''expense'')
       (Val ''food'') (Val (- 5)) Null (Val ''2026-11-02'') Null))) = [- 5]"
proof -
  have w1: "create_transaction db_goal ts0 (Val 1) (Val ''gift'') (Val ''misc'') (Val 10) Null
       (Val ''2026-11-02'') Null = (Uncaught CONSTRAINT_CHECK, db_goal)"
    using create_transaction_constraints_only [of "Val 1" "Val ''gift''" "Val ''misc''" "Val 10"
          "Val ''2026-11-02''" db_goal ts0 Null Null]
    by (simp add: create_transaction_def insert_transaction_def)
  have w2: "create_transaction db_goal ts0 (Val 1) (Val ''income'') (Val ''misc'') Undefined Null
       (Val ''2026-11-02'') Null = (Uncaught CONSTRAINT_NOTNULL, db_goal)"
    using create_transaction_constraints_only [of "Val 1" "Val ''income''" "Val ''misc''" Undefined
          "Val ''2026-11-02''" db_goal ts0 Null Null]
    by (simp add: create_transaction_def insert_transaction_def)
  have w3: "fst (create_transaction db_goal ts0 (Val 1) (Val ''income'') (Val ''misc'') (Val 0) Null
       (Val ''2026-11-02'') (Val 1)) = Json_id 1 \<and>
     map txn_amount (transactions (snd (create_transaction db_goal ts0 (Val 1) (Val ''income'')
       (Val ''misc'') (Val 0) Null (Val ''2026-11-02'') (Val 1)))) = [0]"
    using create_transaction_constraints_only [of "Val 1" "Val ''income''" "Val ''misc''" "Val 0"
          "Val ''2026-11-02''" db_goal ts0 Null "Val 1" 1 "''income''" "''misc''" 0
          "''2026-11-02''"]
    by (auto simp: db_goal_eq next_rowid_def)
  have w4: "fst (create_transaction db_goal ts0 (Val 2) (Val ''expense'') (Val ''food'') (Val (- 5)) Null
       (Val ''2026-11-02'') Null) = Json_id 1 \<and>
     map txn_amount (transactions (snd (create_transaction db_goal ts0 (Val 2) (Val ''expense'')
       (Val ''food'') (Val (- 5)) Null (Val ''2026-11-02'') Null))) = [- 5]"
    using create_transaction_constraints_only [of "Val 2" "Val ''expense''" "Val ''food''"
          "Val (- 5)" "Val ''2026-11-02''" db_goal ts0 Null Null 2 "''expense''" "''food''" "- 5"
          "''2026-11-02''"]
    by (auto simp: db_goal_eq next_rowid_def)
  from w1 w2 w3 w4 show ?thesis by simp
qed

subsection \<open>Deleting a transaction\<close>

text \<open>
  C4, as the specification states it, fails: deleting an id that no transaction has
  is answered with success, not with NotFound.
\<close>

theorem delete_transaction_absent_id_succeeds:
  "7 \<notin> set (map txn_id (transactions db_A)) \<and> fst (delete_transaction db_A 7) = Json_success"
  by (simp add: db_A_eq db_goal_eq delete_transaction_def)

lemma filter_other_ids: "i \<notin> set (map txn_id ts) \<Longrightarrow> filter (\<lambda>t. txn_id t \<noteq> i) ts = ts"
  by (induction ts) auto

text \<open>
  C4, amended. delete_transaction always answers success, whether or not a
  transaction has the id and whoever owns it. When no transaction has the id the
  store is unchanged; otherwise the transactions table afterwards is the table
  without the rows of that id, the other rows in their order, and the users are
  untouched.
\<close>

theorem delete_transaction_success:
  "fst (delete_transaction d i) = Json_success \<and>
   (i \<notin> set (map txn_id (transactions d)) \<longrightarrow> snd (delete_transaction d i) = d) \<and>
   users (snd (delete_transaction d i)) = users d \<and>
   transactions (snd (delete_transaction d i)) = filter (\<lambda>t. txn_id t \<noteq> i) (transactions d)"
  by (simp add: delete_transaction_def filter_other_ids)

theorem delete_transaction_success_witness:
  "7 \<notin> set (map txn_id (transactions db_B)) \<and>
   fst (delete_transaction db_B 7) = Json_success \<and> snd (delete_transaction db_B 7) = db_B \<and>
   fst (delete_transaction db_B 1) = Json_success \<and>
   map txn_id (transactions db_B) = [1, 2] \<and>
   map txn_id (transactions (snd (delete_transaction db_B 1))) = [2]"
proof -
  have absent: "7 \<notin> set (map txn_id (transactions db_B))"
    and ids: "map txn_id (transactions db_B) = [1, 2]"
    and rest: "map txn_id (filter (\<lambda>t. txn_id t \<noteq> 1) (transactions db_B)) = [2]"
    by (simp_all add: db_B_eq)
  from delete_transaction_success [of db_B 7] delete_transaction_success [of db_B 1]
    absent ids rest
  show ?thesis
    by simp
qed

subsection \<open>Registration\<close>

text \<open>
  C6. Registering with an email that a user row already has answers the
  "Email already exists" error (status 400) and returns the database as it was: the
  first user's name, email and password are unchanged and no row is added.
\<close>

theorem register_duplicate_email:
  "e \<in> set (map usr_email (users d)) \<Longrightarrow>
   register d ts name (Val e) password = (Status 400 ''Email already exists'', d)"
  by (simp add: register_def insert_user_def split: option.split)

theorem register_duplicate_email_witness:
  "''ann@example.org'' \<in> set (map usr_email (users db_ann)) \<and>
   register db_ann ts0 (Val ''Eve'') (Val ''ann@example.org'') (Val ''x'')
     = (Status 400 ''Email already exists'', db_ann)"
  using register_duplicate_email [of "''ann@example.org''" db_ann ts0 "Val ''Eve''" "Val ''x''"]
  by (simp add: db_ann_eq)

subsection \<open>Double arithmetic on whole numbers\<close>

text \<open>
  Whole numbers up to 2 ^ 53 in absolute value are doubles, and sums and differences
  of them that stay in that range are computed without rounding, by \<open>fl\<close> and
  so by the summation of \<^verbatim>\<open>SUM\<close>.
\<close>

lemma round_even_of_int: "round_even (of_int n) = n"
  by (simp add: round_even_def)

lemma fl_zero: "fl 0 = 0"
  by (simp add: fl_def)

lemma pow2_nonzero: "pow2 k \<noteq> 0"
  by (simp add: pow2_def)

lemma fl_exact: "x / ulp x = of_int k \<Longrightarrow> fl x = x"
proof -
  assume q: "x / ulp x = of_int k"
  have u: "ulp x \<noteq> 0" by (simp add: ulp_def pow2_nonzero)
  from q u have "x = of_int k * ulp x" by (simp add: field_simps)
  with q show ?thesis
    by (simp add: fl_def round_even_of_int)
qed

lemma pow2_neg: "pow2 (- int j) = 1 / 2 ^ j"
  by (auto simp: pow2_def)

lemma fl_of_int:
  assumes "\<bar>n\<bar> \<le> 2 ^ 53"
  shows "fl (of_int n) = of_int n"
proof (cases "n = 0")
  case True
  then show ?thesis by (simp add: fl_zero)
next
  case False
  define m where "m = \<bar>n\<bar>"
  define b where "b = bitlen m"
  from False have m: "0 < m" by (simp add: m_def)
  from bitlen_bounds [OF m] have lo: "2 ^ nat (b - 1) \<le> m" and hi: "m < 2 ^ nat b"
    by (simp_all add: b_def)
  from m have "b \<noteq> 0"
    using bitlen_eq_zero_iff [of m] by (simp add: b_def)
  moreover have "0 \<le> b"
    using bitlen_nonneg [of m] by (simp add: b_def)
  ultimately have b1: "1 \<le> b" by linarith
  from lo assms have le: "(2::int) ^ nat (b - 1) \<le> 2 ^ 53" by (simp add: m_def)
  have "nat (b - 1) \<le> 53"
  proof (rule power_le_imp_le_exp)
    show "(1::int) < 2" by simp
    show "(2::int) ^ nat (b - 1) \<le> 2 ^ 53" by (fact le)
  qed
  with b1 have b54: "b \<le> 54" by linarith
  have abs: "\<bar>real_of_int n\<bar> = of_int m"
    by (simp add: m_def)
  have one: "1 \<le> real_of_int m"
    using m by simp
  have ex: "expo (of_int n) = b - 1"
    unfolding expo_def by (simp only: abs one if_True floor_of_int b_def)
  show ?thesis
  proof (cases "b \<le> 53")
    case True
    define j where "j = nat (53 - b)"
    from True b1 have "max (b - 1) (- 1022) - 52 = - int j" by (simp add: j_def)
    then have "ulp (of_int n) = 1 / 2 ^ j"
      by (simp add: ulp_def ex pow2_neg)
    then have "of_int n / ulp (of_int n) = of_int (n * 2 ^ j)"
      by simp
    then show ?thesis by (rule fl_exact)
  next
    case False
    with b54 have b: "b = 54" by simp
    with lo assms have "m = 2 ^ 53" by (simp add: m_def)
    then have n: "n = 2 ^ 53 \<or> n = - (2 ^ 53)" by (auto simp: m_def abs_if split: if_splits)
    have "ulp (of_int n) = 2"
      by (simp add: ulp_def ex b pow2_def)
    with n have "of_int n / ulp (of_int n) = of_int (n div 2)"
      by auto
    then show ?thesis by (rule fl_exact)
  qed
qed

lemma fl_whole: "x \<in> \<int> \<Longrightarrow> \<bar>x\<bar> \<le> 2 ^ 53 \<Longrightarrow> fl x = x"
proof -
  assume "x \<in> \<int>" and bound: "\<bar>x\<bar> \<le> 2 ^ 53"
  then obtain n where x: "x = of_int n" by (auto elim: Ints_cases)
  from bound have "real_of_int \<bar>n\<bar> \<le> real_of_int (2 ^ 53)" by (simp add: x)
  then have "\<bar>n\<bar> \<le> 2 ^ 53" by (simp only: of_int_le_iff)
  then show ?thesis unfolding x by (rule fl_of_int)
qed

lemma kahan_step_whole:
  assumes s: "rSum p \<in> \<int>" and e: "rErr p = 0" and r: "r \<in> \<int>"
    and bound: "\<bar>rSum p\<bar> + \<bar>r\<bar> \<le> 2 ^ 53"
  shows "kahanBabuskaNeumaierStep p r = \<lparr>rSum = rSum p + r, rErr = 0\<rparr>"
proof -
  have t: "fl (rSum p + r) = rSum p + r"
    using s r bound by (intro fl_whole) auto
  have mr: "fl (- r) = - r" and ms: "fl (- rSum p) = - rSum p"
    using s r bound by (auto intro!: fl_whole)
  show ?thesis
    by (simp add: kahanBabuskaNeumaierStep_def Let_def t e mr ms fl_zero)
qed

lemma kahan_fold_whole:
  assumes "\<forall>x\<in>set xs. x \<in> \<int>" and "rSum p \<in> \<int>" and "rErr p = 0"
    and "\<bar>rSum p\<bar> + sum_list (map abs xs) \<le> 2 ^ 53"
  shows "fold (\<lambda>r p. kahanBabuskaNeumaierStep p r) xs p
           = \<lparr>rSum = rSum p + sum_list xs, rErr = 0\<rparr>"
  using assms
proof (induction xs arbitrary: p)
  case Nil
  then show ?case by simp
next
  case (Cons x xs)
  have nn: "0 \<le> sum_list (map abs xs)"
    by (rule sum_list_nonneg) auto
  from Cons.prems nn have step: "kahanBabuskaNeumaierStep p x = \<lparr>rSum = rSum p + x, rErr = 0\<rparr>"
    by (intro kahan_step_whole) auto
  have "fold (\<lambda>r p. kahanBabuskaNeumaierStep p r) xs \<lparr>rSum = rSum p + x, rErr = 0\<rparr>
          = \<lparr>rSum = rSum \<lparr>rSum = rSum p + x, rErr = 0\<rparr> + sum_list xs, rErr = 0\<rparr>"
    using Cons.prems by (intro Cons.IH) auto
  then show ?case
    by (simp add: step add.assoc)
qed

lemma abs_sum_list_le: "\<bar>sum_list xs\<bar> \<le> sum_list (map abs xs)" for xs :: "real list"
  by (induction xs) auto

lemma sql_sum_whole:
  assumes "\<forall>x\<in>set xs. x \<in> \<int>" and "sum_list (map abs xs) \<le> 2 ^ 53"
  shows "or_zero (sql_sum xs) = sum_list xs"
proof (cases "xs = []")
  case True
  then show ?thesis by (simp add: sql_sum_def)
next
  case False
  have "fold (\<lambda>r p. kahanBabuskaNeumaierStep p r) xs \<lparr>rSum = 0, rErr = 0\<rparr>
          = \<lparr>rSum = rSum \<lparr>rSum = 0, rErr = 0\<rparr> + sum_list xs, rErr = 0\<rparr>"
    using assms by (intro kahan_fold_whole) auto
  moreover have "fl (sum_list xs) = sum_list xs"
  proof (rule fl_whole)
    show "sum_list xs \<in> \<int>" using assms(1) by (induction xs) auto
    show "\<bar>sum_list xs\<bar> \<le> 2 ^ 53" using abs_sum_list_le [of xs] assms(2) by linarith
  qed
  ultimately show ?thesis
    using False by (simp add: sql_sum_def)
qed

lemma sum_list_two_filters:
  fixes f :: "'a \<Rightarrow> real"
  assumes "\<And>t. \<not> (Q t \<and> R t)" and "\<And>t. 0 \<le> f t"
  shows "sum_list (map f (filter (\<lambda>t. P t \<and> Q t) xs))
           + sum_list (map f (filter (\<lambda>t. P t \<and> R t) xs))
         \<le> sum_list (map f (filter P xs))"
proof (induction xs)
  case Nil
  then show ?case by simp
next
  case (Cons x xs)
  then show ?case
    using assms(1) [of x] assms(2) [of x] by auto
qed

lemma whole_sum_list: "\<forall>x\<in>set xs. x \<in> \<int> \<Longrightarrow> sum_list xs \<in> \<int>" for xs :: "real list"
  by (induction xs) auto

subsection \<open>Decimal strings and calendar order\<close>

text \<open>
  A date written \<^verbatim>\<open>yyyy-MM-dd\<close> is no numeric literal, so the \<^verbatim>\<open>DATE\<close> column keeps
  it as text, and so is the first day of the month that the stats handler builds.
  For four-digit years the bytewise comparison of two such texts is the comparison
  of the dates, which the lemmas below establish digit by digit.
\<close>

lemma base10_less:
  fixes qa ra qb rb :: nat
  shows "ra < 10 \<Longrightarrow> rb < 10 \<Longrightarrow> (10 * qa + ra < 10 * qb + rb) \<longleftrightarrow> (qa < qb \<or> (qa = qb \<and> ra < rb))"
  by arith

lemma base10_eq:
  fixes qa ra qb rb :: nat
  shows "ra < 10 \<Longrightarrow> rb < 10 \<Longrightarrow> (10 * qa + ra = 10 * qb + rb) \<longleftrightarrow> (qa = qb \<and> ra = rb)"
  by arith

lemma div10_less: "(a::nat) < b \<longleftrightarrow> (a div 10 < b div 10 \<or> (a div 10 = b div 10 \<and> a mod 10 < b mod 10))"
proof -
  have "a = 10 * (a div 10) + a mod 10" "b = 10 * (b div 10) + b mod 10" by simp_all
  then have "a < b \<longleftrightarrow> 10 * (a div 10) + a mod 10 < 10 * (b div 10) + b mod 10" by simp
  also have "\<dots> \<longleftrightarrow> (a div 10 < b div 10 \<or> (a div 10 = b div 10 \<and> a mod 10 < b mod 10))"
    by (rule base10_less) simp_all
  finally show ?thesis .
qed

lemma div10_eq: "(a::nat) = b \<longleftrightarrow> (a div 10 = b div 10 \<and> a mod 10 = b mod 10)"
  by (metis div_mult_mod_eq)

lemma div10_le: "(a::nat) \<le> b \<longleftrightarrow> (a div 10 < b div 10 \<or> (a div 10 = b div 10 \<and> a mod 10 \<le> b mod 10))"
  using div10_less [of a b] div10_eq [of a b] by (auto simp: le_less)



lemma digit_char_code: "n < 10 \<Longrightarrow> (of_char (digit_char n) :: nat) = 48 + n"
proof -
  assume "n < 10"
  then have "n \<in> {0, 1, 2, 3, 4, 5, 6, 7, 8, 9}"
    by auto
  then show ?thesis
    by (auto simp: digit_char_def)
qed



lemma digit_char_le: "a < 10 \<Longrightarrow> b < 10 \<Longrightarrow> digit_char a \<le> digit_char b \<longleftrightarrow> a \<le> b"
  by (simp add: less_eq_char_def digit_char_code)






















subsection \<open>Dashboard statistics\<close>


text \<open>
  C7, as the specification states it, fails: the sums are sums of doubles. With the
  incomes 9007199254740992 and 1 and the expense 9007199254740992 the income sum
  minus the expense sum is 1, and the balance reported is 0.
\<close>

theorem balance_rounds_large_sum:
  "sum_list (map txn_amount
     (filter (\<lambda>t. txn_user_id t = 1 \<and> txn_type t = ''income'') (transactions db_big)))
   - sum_list (map txn_amount
     (filter (\<lambda>t. txn_user_id t = 1 \<and> txn_type t = ''expense'') (transactions db_big))) = 1 \<and>
   balance (get_stats db_big clock0 1) = 0"
  by (simp add: db_big_eq db_goal_eq get_stats_def total_of_def double_eval Let_def)

text \<open>
  C7, amended. Whenever the user's amounts are whole numbers whose absolute values
  add up to at most 2 ^ 53, the balance that get_stats reports for the user is the
  sum of the amounts of that user's income transactions minus the sum of the amounts
  of that user's expense transactions; for a user with no transactions it is 0.
  (Beyond that, \<^verbatim>\<open>SUM\<close> and the subtraction round as double arithmetic does, and the
  figure can differ from the exact one.)
\<close>

theorem get_stats_balance:
  "((\<forall>t\<in>set (transactions d). txn_user_id t = u \<longrightarrow> txn_amount t \<in> \<int>) \<and>
    sum_list (map (\<lambda>t. \<bar>txn_amount t\<bar>) (filter (\<lambda>t. txn_user_id t = u) (transactions d)))
      \<le> 2 ^ 53 \<longrightarrow>
      balance (get_stats d now u) =
        sum_list (map txn_amount
          (filter (\<lambda>t. txn_user_id t = u \<and> txn_type t = ''income'') (transactions d)))
        - sum_list (map txn_amount
          (filter (\<lambda>t. txn_user_id t = u \<and> txn_type t = ''expense'') (transactions d)))) \<and>
   (filter (\<lambda>t. txn_user_id t = u) (transactions d) = [] \<longrightarrow>
      balance (get_stats d now u) = 0)"
proof -
  define inc where
    "inc = filter (\<lambda>t. txn_user_id t = u \<and> txn_type t = ''income'') (transactions d)"
  define exp where
    "exp = filter (\<lambda>t. txn_user_id t = u \<and> txn_type t = ''expense'') (transactions d)"
  define own where "own = filter (\<lambda>t. txn_user_id t = u) (transactions d)"
  have bal: "balance (get_stats d now u) =
      fl (or_zero (sql_sum (map txn_amount inc)) - or_zero (sql_sum (map txn_amount exp)))"
    by (simp add: get_stats_def Let_def total_of_def inc_def exp_def)
  have exact: "balance (get_stats d now u)
        = sum_list (map txn_amount inc) - sum_list (map txn_amount exp)"
    if whole: "\<forall>t\<in>set (transactions d). txn_user_id t = u \<longrightarrow> txn_amount t \<in> \<int>"
      and bound: "sum_list (map (\<lambda>t. \<bar>txn_amount t\<bar>) own) \<le> 2 ^ 53"
  proof -
    have split: "sum_list (map (\<lambda>t. \<bar>txn_amount t\<bar>) inc) + sum_list (map (\<lambda>t. \<bar>txn_amount t\<bar>) exp)
        \<le> sum_list (map (\<lambda>t. \<bar>txn_amount t\<bar>) own)"
      unfolding inc_def exp_def own_def
      by (rule sum_list_two_filters) auto
    have nn: "0 \<le> sum_list (map (\<lambda>t. \<bar>txn_amount t\<bar>) inc)"
             "0 \<le> sum_list (map (\<lambda>t. \<bar>txn_amount t\<bar>) exp)"
      by (auto intro!: sum_list_nonneg)
    have abs_map: "map abs (map txn_amount ts) = map (\<lambda>t. \<bar>txn_amount t\<bar>) ts" for ts
      by simp
    have wi: "\<forall>x\<in>set (map txn_amount inc). x \<in> \<int>" and we: "\<forall>x\<in>set (map txn_amount exp). x \<in> \<int>"
      using whole by (auto simp: inc_def exp_def)
    have bi: "sum_list (map abs (map txn_amount inc)) \<le> 2 ^ 53"
      and be: "sum_list (map abs (map txn_amount exp)) \<le> 2 ^ 53"
      unfolding abs_map using split nn bound by linarith+
    have si: "or_zero (sql_sum (map txn_amount inc)) = sum_list (map txn_amount inc)"
      by (rule sql_sum_whole [OF wi bi])
    have se: "or_zero (sql_sum (map txn_amount exp)) = sum_list (map txn_amount exp)"
      by (rule sql_sum_whole [OF we be])
    have "fl (sum_list (map txn_amount inc) - sum_list (map txn_amount exp))
            = sum_list (map txn_amount inc) - sum_list (map txn_amount exp)"
    proof (rule fl_whole)
      show "sum_list (map txn_amount inc) - sum_list (map txn_amount exp) \<in> \<int>"
        using whole_sum_list [OF wi] whole_sum_list [OF we] by simp
      have "\<bar>sum_list (map txn_amount inc)\<bar> \<le> sum_list (map (\<lambda>t. \<bar>txn_amount t\<bar>) inc)"
           "\<bar>sum_list (map txn_amount exp)\<bar> \<le> sum_list (map (\<lambda>t. \<bar>txn_amount t\<bar>) exp)"
        using abs_sum_list_le [of "map txn_amount inc"] abs_sum_list_le [of "map txn_amount exp"]
        by (simp_all add: comp_def)
      with split bound
      show "\<bar>sum_list (map txn_amount inc) - sum_list (map txn_amount exp)\<bar> \<le> 2 ^ 53"
        by linarith
    qed
    then show ?thesis
      by (simp add: bal si se)
  qed
  have none: "balance (get_stats d now u) = 0" if "own = []"
  proof -
    have "inc = []" "exp = []"
      using that by (auto simp: inc_def exp_def own_def filter_empty_conv)
    then show ?thesis
      by (simp add: bal sql_sum_def fl_zero)
  qed
  from exact none show ?thesis
    unfolding inc_def exp_def own_def by blast
qed

theorem get_stats_balance_witness:
  "balance (get_stats db_other clock0 1) = 700000 \<and>
   balance (get_stats db_other clock0 2) = - 90 \<and>
   filter (\<lambda>t. txn_user_id t = 3) (transactions db_other) = [] \<and>
   balance (get_stats db_other clock0 3) = 0"
  using get_stats_balance [of db_other 1 clock0] get_stats_balance [of db_other 2 clock0]
    get_stats_balance [of db_other 3 clock0]
  by (simp add: db_other_eq db_B_eq db_goal_eq)




subsection \<open>Reads are scoped to the queried user\<close>

lemma total_of_scoped:
  "total_of d u ty =
     sql_sum (map txn_amount
       (filter (\<lambda>t. txn_type t = ty) (filter (\<lambda>t. txn_user_id t = u) (transactions d))))"
  by (simp add: total_of_def)

lemma monthly_of_scoped:
  "monthly_of d u ty start =
     sql_sum (map txn_amount
       (filter (\<lambda>t. txn_type t = ty \<and> sql_le (numeric_affinity start) (txn_date t))
          (filter (\<lambda>t. txn_user_id t = u) (transactions d))))"
  by (simp add: monthly_of_def)

text \<open>
  C9. list_transactions, list_targets and get_stats for user \<open>u\<close> depend only on
  the rows whose \<^verbatim>\<open>user_id\<close> is \<open>u\<close>: two databases that hold the same
  transactions and the same targets of \<open>u\<close>, in the same order, give the same
  three answers, whatever rows of other users were added, changed or removed.
\<close>

theorem reads_scoped_to_user:
  assumes "filter (\<lambda>t. txn_user_id t = u) (transactions d) =
           filter (\<lambda>t. txn_user_id t = u) (transactions d')"
    and "filter (\<lambda>g. tgt_user_id g = u) (targets d) =
         filter (\<lambda>g. tgt_user_id g = u) (targets d')"
  shows "list_transactions d u = list_transactions d' u \<and>
         list_targets d u = list_targets d' u \<and>
         get_stats d now u = get_stats d' now u"
proof -
  have "total_of d u ty = total_of d' u ty" for ty
    by (simp only: total_of_scoped assms)
  moreover have "monthly_of d u ty start = monthly_of d' u ty start" for ty start
    by (simp only: monthly_of_scoped assms)
  ultimately have "get_stats d now u = get_stats d' now u"
    by (simp add: get_stats_def)
  with assms show ?thesis
    by (simp add: list_transactions_def list_targets_def)
qed

theorem reads_scoped_to_user_witness:
  "filter (\<lambda>t. txn_user_id t = 1) (transactions db_B) =
     filter (\<lambda>t. txn_user_id t = 1) (transactions db_other) \<and>
   filter (\<lambda>g. tgt_user_id g = 1) (targets db_B) =
     filter (\<lambda>g. tgt_user_id g = 1) (targets db_other) \<and>
   transactions db_B \<noteq> transactions db_other \<and> targets db_B \<noteq> targets db_other \<and>
   list_transactions db_B 1 = list_transactions db_other 1 \<and>
   list_targets db_B 1 = list_targets db_other 1 \<and>
   get_stats db_B clock0 1 = get_stats db_other clock0 1"
proof -
  have txs: "filter (\<lambda>t. txn_user_id t = 1) (transactions db_B) =
     filter (\<lambda>t. txn_user_id t = 1) (transactions db_other)"
    by (simp add: db_other_eq db_B_eq db_goal_eq)
  have tgs: "filter (\<lambda>g. tgt_user_id g = 1) (targets db_B) =
     filter (\<lambda>g. tgt_user_id g = 1) (targets db_other)"
    by (simp add: db_other_eq db_B_eq db_goal_eq)
  have differ: "transactions db_B \<noteq> transactions db_other \<and> targets db_B \<noteq> targets db_other"
    by (simp add: db_other_eq db_B_eq db_goal_eq)
  from reads_scoped_to_user [OF txs tgs, of clock0] txs tgs differ show ?thesis
    by blast
qed

subsection \<open>Updating a target\<close>

text \<open>
  C10. update_target answers success and writes \<^verbatim>\<open>saved_amount\<close> and
  \<^verbatim>\<open>status\<close> of the target rows with the given id, each only when the request
  supplies it (a supplied null is written as NULL); a field that is not supplied
  keeps its value, every other column of every target row is unchanged, rows with
  another id are unchanged, and users, transactions and the counters are untouched.
\<close>

theorem update_target_frame:
  assumes "update_target d i saved_amount status = (r, d')"
  shows "r = Json_success \<and> users d' = users d \<and> transactions d' = transactions d \<and>
         users_seq d' = users_seq d \<and> targets_seq d' = targets_seq d \<and>
         transactions_seq d' = transactions_seq d \<and> foreign_keys d' = foreign_keys d \<and>
         length (targets d') = length (targets d) \<and>
         (\<forall>k<length (targets d).
            tgt_id (targets d' ! k) = tgt_id (targets d ! k) \<and>
            tgt_user_id (targets d' ! k) = tgt_user_id (targets d ! k) \<and>
            tgt_name (targets d' ! k) = tgt_name (targets d ! k) \<and>
            tgt_amount (targets d' ! k) = tgt_amount (targets d ! k) \<and>
            tgt_deadline (targets d' ! k) = tgt_deadline (targets d ! k) \<and>
            tgt_description (targets d' ! k) = tgt_description (targets d ! k) \<and>
            tgt_created_at (targets d' ! k) = tgt_created_at (targets d ! k) \<and>
            tgt_saved_amount (targets d' ! k) =
              (if tgt_id (targets d ! k) = i \<and> saved_amount \<noteq> Undefined
               then bind_param saved_amount else tgt_saved_amount (targets d ! k)) \<and>
            tgt_status (targets d' ! k) =
              (if tgt_id (targets d ! k) = i \<and> status \<noteq> Undefined
               then bind_param status else tgt_status (targets d ! k)))"
  using assms
  by (cases "saved_amount = Undefined"; cases "status = Undefined")
     (auto simp: update_target_def set_saved_amount_def set_status_def Let_def)

theorem update_target_frame_witness:
  "update_target db_other 1 Undefined (Val ''completed'') =
     (Json_success,
      db_other\<lparr>targets := [(targets db_other ! 0)\<lparr>tgt_status := Some ''completed''\<rparr>,
                           targets db_other ! 1]\<rparr>) \<and>
   tgt_saved_amount (targets (snd (update_target db_other 1 Undefined (Val ''completed''))) ! 0)
     = Some 700000"
proof -
  have run: "update_target db_other 1 Undefined (Val ''completed'') =
     (Json_success,
      db_other\<lparr>targets := [(targets db_other ! 0)\<lparr>tgt_status := Some ''completed''\<rparr>,
                           targets db_other ! 1]\<rparr>)"
    by (simp add: update_target_def set_status_def db_other_eq db_B_eq db_goal_eq)
  from update_target_frame [OF run] show ?thesis
    using run by (simp add: db_other_eq db_B_eq db_goal_eq)
qed

end
